theory Spec2Isabelle
  imports Main "HOL-Library.AList"
begin

section \<open>The session gateway of \<open>src/index.js\<close>\<close>

text \<open>
  The program keeps two global JavaScript objects, \<open>sessions\<close> and \<open>clients\<close>, one file
  \<open>./sessions.json\<close>, and reacts to three kinds of stimuli: requests arriving on a socket,
  lifecycle events raised by an engine client, and the expiry of a \<open>setTimeout\<close>. Node runs
  every handler to completion before the next one starts, so each handler is a function
  from state to state, and a run of the program is a list of events folded over the state.

  A JavaScript object used as a dictionary is an association list of its own properties in
  the order they were created: assigning is \<open>AList.update\<close> (in place for a key that is
  present, at the end for a new one) and \<open>delete\<close> is \<open>AList.delete\<close>. Keys are strings,
  as JavaScript coerces them. Reading \<open>obj[k]\<close> also sees what the object inherits from
  \<open>Object.prototype\<close> (\<open>js_get\<close>), and \<open>for ... in\<close> and \<open>JSON.stringify\<close> visit the
  array-index keys first, in ascending order (\<open>own_enumeration\<close>).
\<close>

type_synonym 'a table = "(string \<times> 'a) list"

text \<open>The value stored in \<open>sessions\<close>: the object literal \<open>{ authenticated: b }\<close>.\<close>

record session =
  authenticated :: bool

text \<open>
  An engine client. Every \<open>new Client(...)\<close> is a new object: \<open>cid\<close> is its identity,
  \<open>clientId\<close> the \<open>sessionId\<close> that \<open>createClient\<close> closed over.
\<close>

record client =
  cid :: nat
  clientId :: string

text \<open>
  What \<open>obj[k]\<close> gives: an own property, a property that every object inherits (a function
  such as \<open>Object\<close> under \<open>constructor\<close>, or \<open>Object.prototype\<close> itself under
  \<open>__proto__\<close>; all of them truthy and none of them a client or a session), or
  \<open>undefined\<close>.
\<close>

datatype 'a lookup = Own 'a | Inherited | Undefined

text \<open>What \<open>./sessions.json\<close> holds, as \<open>JSON.parse\<close> sees it.\<close>

datatype disk = NoFile | Unparsable | Document "session table"

text \<open>The second argument of \<open>client.sendMessage\<close>.\<close>

datatype content =
    Text string
  | InlineMedia string string "string option" "string option"
  | UrlMedia string
  | FileMedia string

text \<open>Calls made into the engine, in the order they are made.\<close>

datatype engine_call =
    New client
  | Initialize client
  | CloseBrowser client
  | Destroy client
  | SendMessage client string content "string option"

text \<open>What the awaited \<open>client.sendMessage\<close> does: it resolves, or rejects with a message.\<close>

datatype send_result = Delivered | Rejected string

datatype jsval = Str string | Arr "string list" | Obj "(string \<times> jsval) list"

text \<open>\<open>io.emit\<close> reaches every connected peer, \<open>socket.emit\<close> the requesting one.\<close>

datatype channel = Broadcast | Requester

text \<open>The fields of a \<open>send-media\<close> request; an absent field is \<open>None\<close>.\<close>

record media_request =
  sessionId :: string
  number :: string
  message :: string
  filePath :: "string option"
  base64Data :: "string option"
  mimeType :: "string option"
  filename :: "string option"
  filesize :: "string option"

text \<open>A callback registered with \<open>socket.once('reconnected', ...)\<close>, with what it closed over.\<close>

datatype deferred =
    DeferredMessage string string string
  | DeferredMedia media_request

record state =
  sessions :: "session table"
  clients :: "client table"
  disk :: disk
  disk_fault :: "string option"
  engine :: "engine_call list"
  next_cid :: nat
  timers :: "(client lookup \<times> string) list"
  listeners :: "deferred list"
  emitted :: "(channel \<times> string \<times> jsval) list"
  unhandled :: "string list"
  crashed :: "string option"

text \<open>
  \<open>disk_fault\<close> is the environment: \<open>None\<close> when \<open>fs.writeFileSync\<close> succeeds, \<open>Some m\<close>
  when it throws an error with message \<open>m\<close>. \<open>next_cid\<close> counts the clients constructed so
  far. \<open>unhandled\<close> collects the rejections of async callbacks that nothing catches.
  One peer is connected: \<open>listeners\<close> are the callbacks registered on its socket, and
  \<open>timers\<close> are the pending \<open>setTimeout\<close> callbacks with the value of
  \<open>clients[data.sessionId]\<close> and the identifier each one closed over. \<open>crashed\<close> is
  \<open>Some m\<close> once an exception with message \<open>m\<close> has left a timer callback: nothing
  catches it, and Node ends the process.
\<close>

subsection \<open>Strings\<close>

definition startsWith :: "string \<Rightarrow> string \<Rightarrow> bool" where
  "startsWith s p = (take (length p) s = p)"

text \<open>\<open>String.prototype.includes\<close>.\<close>

fun includes_str :: "string \<Rightarrow> string \<Rightarrow> bool" where
  "includes_str [] p = (p = [])"
| "includes_str (c # cs) p = (startsWith (c # cs) p \<or> includes_str cs p)"

definition is_digit :: "char \<Rightarrow> bool" where
  "is_digit c = (c \<in> set ''0123456789'')"

text \<open>The regular expression \<open>/^\d+$/\<close>: one or more ASCII digits and nothing else.\<close>

definition digits_only :: "string \<Rightarrow> bool" where
  "digits_only n = (n \<noteq> [] \<and> list_all is_digit n)"

text \<open>The regular expression \<open>/^session_/\<close>.\<close>

definition validSessionPattern :: "string \<Rightarrow> bool" where
  "validSessionPattern k = startsWith k ''session_''"

text \<open>A number inside a template string.\<close>

fun string_of_nat :: "nat \<Rightarrow> string" where
  "string_of_nat n =
     (if n < 10 then [char_of (48 + n)]
      else string_of_nat (n div 10) @ [char_of (48 + n mod 10)])"

declare string_of_nat.simps [simp del]

text \<open>The number that a string of digits denotes.\<close>

definition nat_of_digits :: "string \<Rightarrow> nat" where
  "nat_of_digits k = fold (\<lambda>c n. 10 * n + (of_char c - 48)) k 0"

text \<open>Truthiness of an optional string field: present and not empty.\<close>

fun truthy :: "string option \<Rightarrow> bool" where
  "truthy None = False"
| "truthy (Some v) = (v \<noteq> [])"

subsection \<open>Objects as dictionaries\<close>

text \<open>The properties of \<open>Object.prototype\<close>, which \<open>{}\<close> and every parsed object inherit.\<close>

definition proto_names :: "string list" where
  "proto_names =
     [''constructor'', ''__defineGetter__'', ''__defineSetter__'', ''hasOwnProperty'',
      ''__lookupGetter__'', ''__lookupSetter__'', ''isPrototypeOf'',
      ''propertyIsEnumerable'', ''toString'', ''valueOf'', ''__proto__'',
      ''toLocaleString'']"

definition js_get :: "'a table \<Rightarrow> string \<Rightarrow> 'a lookup" where
  "js_get tbl k =
     (case map_of tbl k of
        Some v \<Rightarrow> Own v
      | None \<Rightarrow> if k \<in> set proto_names then Inherited else Undefined)"

text \<open>
  An array index is a key that is the decimal form of a number below \<open>2^32 - 1\<close>
  (\<open>7\<close> and \<open>0\<close> are, \<open>07\<close> is not).
\<close>

definition array_index :: "string \<Rightarrow> nat option" where
  "array_index k =
     (if digits_only k \<and> string_of_nat (nat_of_digits k) = k \<and>
         int (nat_of_digits k) < 4294967295
      then Some (nat_of_digits k) else None)"

text \<open>
  The order in which \<open>for ... in\<close> and \<open>JSON.stringify\<close> visit the own properties: the
  array indices in ascending order, then the other keys in the order of their creation.
\<close>

definition own_enumeration :: "'a table \<Rightarrow> 'a table" where
  "own_enumeration tbl =
     sort_key (\<lambda>p. the (array_index (fst p))) (filter (\<lambda>p. array_index (fst p) \<noteq> None) tbl)
     @ filter (\<lambda>p. array_index (fst p) = None) tbl"

subsection \<open>Start-up (lines 22 to 32)\<close>

definition load :: "disk \<Rightarrow> session table" where
  "load d = (case d of NoFile \<Rightarrow> [] | Unparsable \<Rightarrow> [] | Document t \<Rightarrow> t)"

definition boot :: "disk \<Rightarrow> string option \<Rightarrow> state" where
  "boot d f =
     \<lparr> sessions = load d, clients = [], disk = d, disk_fault = f, engine = [],
       next_cid = 0, timers = [], listeners = [], emitted = [], unhandled = [],
       crashed = None \<rparr>"

subsection \<open>Output and persistence\<close>

definition emit :: "channel \<Rightarrow> string \<Rightarrow> jsval \<Rightarrow> state \<Rightarrow> state" where
  "emit ch name payload s = s\<lparr>emitted := emitted s @ [(ch, name, payload)]\<rparr>"

text \<open>
  \<open>fs.writeFileSync(SESSIONS_FILE, JSON.stringify(sessions))\<close>: the whole table, in the
  order \<open>JSON.stringify\<close> visits it, replaces the file, or the call throws (\<open>Inl\<close>) and the
  file is as it was.
\<close>

definition writeFileSync :: "state \<Rightarrow> string + state" where
  "writeFileSync s =
     (case disk_fault s of
        None \<Rightarrow> Inr (s\<lparr>disk := Document (own_enumeration (sessions s))\<rparr>)
      | Some m \<Rightarrow> Inl m)"

subsection \<open>\<open>createClient\<close> (lines 34 to 99)\<close>

text \<open>
  \<open>new LocalAuth({ clientId: sessionId })\<close> is the engine's: its constructor tests a
  non-empty \<open>clientId\<close> against \<open>/^[-_\w]+$/i\<close> and throws when the test fails. Then
  \<open>createClient\<close> throws before a client exists.
\<close>

definition is_id_char :: "char \<Rightarrow> bool" where
  "is_id_char c =
     (c \<in> set ''abcdefghijklmnopqrstuvwxyzABCDEFGHIJKLMNOPQRSTUVWXYZ0123456789_-'')"

definition localAuth_accepts :: "string \<Rightarrow> bool" where
  "localAuth_accepts sid = (sid = [] \<or> list_all is_id_char sid)"

definition createClient :: "string \<Rightarrow> state \<Rightarrow> string + client \<times> state" where
  "createClient sid s =
     (if localAuth_accepts sid
      then (let c = \<lparr>cid = next_cid s, clientId = sid\<rparr>
            in Inr (c, s\<lparr>engine := engine s @ [New c], next_cid := Suc (next_cid s)\<rparr>))
      else Inl (''Invalid clientId. Only alphanumeric characters, ''
                @ ''underscores and hyphens are allowed.''))"

subsection \<open>\<open>initializeClient\<close> (lines 101 to 116)\<close>

text \<open>
  The test \<open>if (clients[sessionId])\<close> is true of an inherited property too; then
  \<open>clients[sessionId].initialize()\<close> is a call of something that is not a function, and
  the \<open>TypeError\<close> goes to the \<open>catch\<close>. So does what \<open>createClient\<close> throws, before
  anything is assigned, and what \<open>fs.writeFileSync\<close> throws, after everything is.
\<close>

definition initializeClient :: "string \<Rightarrow> state \<Rightarrow> state" where
  "initializeClient sid s =
     (case js_get (clients s) sid of
        Own c \<Rightarrow>
          emit Broadcast ''reconnect-status''
            (Obj [(''sessionId'', Str sid), (''status'', Str ''Success''),
                  (''message'', Str (''Client '' @ sid @ '' is reconnected!''))])
            (s\<lparr>engine := engine s @ [Initialize c]\<rparr>)
      | Inherited \<Rightarrow>
          emit Broadcast ''error''
            (Obj [(''status'', Str ''error''),
                  (''datamsg'',
                   Str (''Error initializing client: ''
                        @ ''clients[sessionId].initialize is not a function''))]) s
      | Undefined \<Rightarrow>
          (case createClient sid s of
             Inl m \<Rightarrow>
               emit Broadcast ''error''
                 (Obj [(''status'', Str ''error''),
                       (''datamsg'', Str (''Error initializing client: '' @ m))]) s
           | Inr (c, s1) \<Rightarrow>
               (let s2 = s1\<lparr>clients := AList.update sid c (clients s1)\<rparr>;
                    s3 = s2\<lparr>engine := engine s2 @ [Initialize c]\<rparr>;
                    s4 = s3\<lparr>sessions :=
                              AList.update sid \<lparr>authenticated = False\<rparr> (sessions s3)\<rparr>
                in case writeFileSync s4 of
                     Inr s5 \<Rightarrow> s5
                   | Inl m \<Rightarrow>
                       emit Broadcast ''error''
                         (Obj [(''status'', Str ''error''),
                               (''datamsg'', Str (''Error initializing client: '' @ m))]) s4)))"

subsection \<open>The lifecycle handlers of \<open>createClient\<close> (lines 45 to 96)\<close>

text \<open>
  Each handler closes over the \<open>sessionId\<close> its client was created for, the identifier of
  a client that exists; such an identifier names no inherited property, and assigning to it
  creates or replaces an own property. The QR handler receives the image data that the
  encoder produced.
\<close>

definition on_qr :: "string \<Rightarrow> string \<Rightarrow> state \<Rightarrow> state" where
  "on_qr sid img s =
     emit Broadcast ''qr'' (Obj [(''qr'', Str img), (''sessionId'', Str sid)]) s"

definition on_authenticated :: "string \<Rightarrow> state \<Rightarrow> state" where
  "on_authenticated sid s =
     (let s1 = s\<lparr>sessions := AList.update sid \<lparr>authenticated = True\<rparr> (sessions s)\<rparr>
      in case writeFileSync s1 of
           Inr s2 \<Rightarrow>
             emit Broadcast ''authenticated''
               (Obj [(''sessionId'', Str sid), (''status'', Str ''Success''),
                     (''message'', Str (''Client '' @ sid @ '' is authenticated!''))]) s2
         | Inl m \<Rightarrow>
             emit Broadcast ''error''
               (Obj [(''status'', Str ''error''),
                     (''datamsg'', Str (''Error saving session: '' @ m))]) s1)"

definition on_ready :: "string \<Rightarrow> state \<Rightarrow> state" where
  "on_ready sid s =
     emit Broadcast ''reconnected''
       (Obj [(''sessionId'', Str sid), (''status'', Str ''Success''),
             (''message'', Str (''Client '' @ sid @ '' is ready to send messages!''))]) s"

definition on_auth_failure :: "string \<Rightarrow> string \<Rightarrow> state \<Rightarrow> state" where
  "on_auth_failure sid msg s =
     emit Broadcast ''error''
       (Obj [(''datamsg'',
              Str (''Authentication failed for session '' @ sid @ '': '' @ msg))]) s"

definition on_page_error :: "string \<Rightarrow> state \<Rightarrow> state" where
  "on_page_error msg s =
     emit Broadcast ''error''
       (Obj [(''status'', Str ''error''), (''datamsg'', Str (''Page error: '' @ msg))]) s"

definition on_error :: "string \<Rightarrow> string \<Rightarrow> state \<Rightarrow> state" where
  "on_error sid msg s =
     (let s1 = emit Broadcast ''error''
                 (Obj [(''status'', Str ''error''),
                       (''datamsg'', Str (''Client error: '' @ msg))]) s
      in if includes_str msg ''Execution context was destroyed''
         then initializeClient sid s1 else s1)"

definition on_disconnected :: "string \<Rightarrow> state \<Rightarrow> state" where
  "on_disconnected sid s = initializeClient [] s"

subsection \<open>The socket handlers (lines 119 to 264)\<close>

text \<open>
  In \<open>get-qr\<close>, \<open>sessions[sessionId]\<close> is truthy for an inherited property as well, and
  its \<open>authenticated\<close> is undefined.
\<close>

definition get_qr :: "string \<Rightarrow> state \<Rightarrow> state" where
  "get_qr sid s =
     (let s1 = (case js_get (clients s) sid of
                  Undefined \<Rightarrow> initializeClient sid s
                | Inherited \<Rightarrow> s
                | Own c \<Rightarrow> s)
      in case js_get (sessions s1) sid of
           Own r \<Rightarrow>
             if \<not> authenticated r
             then emit Requester ''qr'' (Obj [(''sessionId'', Str sid)]) s1
             else emit Requester ''qr''
                    (Obj [(''sessionId'', Str sid),
                          (''message'',
                           Str ''Already authenticated or session does not exist.'')]) s1
         | Inherited \<Rightarrow> emit Requester ''qr'' (Obj [(''sessionId'', Str sid)]) s1
         | Undefined \<Rightarrow>
             emit Requester ''qr''
               (Obj [(''sessionId'', Str sid),
                     (''message'',
                      Str ''Already authenticated or session does not exist.'')]) s1)"

text \<open>
  The \<open>catch (err)\<close> around the awaited \<open>client.sendMessage\<close>, the same in both send
  handlers but for the \<open>sessionId\<close> field of the warning: an \<open>if\<close>, an \<open>else if\<close>, and
  no \<open>else\<close>.
\<close>

definition send_failed :: "bool \<Rightarrow> string \<Rightarrow> string \<Rightarrow> state \<Rightarrow> state" where
  "send_failed with_sid sid m s =
     (if includes_str m ''Session closed''
      then emit Requester ''error''
             (Obj [(''status'', Str ''reconnect''), (''sessionId'', Str sid),
                   (''datamsg'',
                    Str ''The session is closed. Please Wait While Reauthenticating.'')]) s
      else if includes_str m ''page has been closed''
      then emit Requester ''Warning''
             (Obj ([(''status'', Str ''warning'')]
                   @ (if with_sid then [(''sessionId'', Str sid)] else [])
                   @ [(''datamsg'', Str (''Failed to send message: '' @ m))])) s
      else s)"

text \<open>
  \<open>send-message\<close>. The last argument is what the engine answers if it is asked to send;
  the awaited continuation touches nothing but the requester's socket. When \<open>client\<close> is
  an inherited property, \<open>client.sendMessage\<close> is not a function and the call throws
  inside the inner \<open>try\<close>.
\<close>

definition send_message ::
  "string \<Rightarrow> string \<Rightarrow> string \<Rightarrow> send_result \<Rightarrow> state \<Rightarrow> state" where
  "send_message sid num msg answer s =
     (case js_get (clients s) sid of
        Undefined \<Rightarrow>
          (let s1 = initializeClient sid s
           in s1\<lparr>listeners := listeners s1 @ [DeferredMessage sid num msg]\<rparr>)
      | Inherited \<Rightarrow>
          if \<not> digits_only num
          then emit Requester ''error''
                 (Obj [(''status'', Str ''error''),
                       (''datamsg'', Str ''Invalid phone number format!'')]) s
          else send_failed False sid ''client.sendMessage is not a function'' s
      | Own c \<Rightarrow>
          if \<not> digits_only num
          then emit Requester ''error''
                 (Obj [(''status'', Str ''error''),
                       (''datamsg'', Str ''Invalid phone number format!'')]) s
          else
            (let s1 = s\<lparr>engine := engine s @ [SendMessage c (num @ ''@c.us'') (Text msg) None]\<rparr>
             in case answer of
                  Delivered \<Rightarrow> emit Requester ''message-sent'' (Str ''Message sent successfully!'') s1
                | Rejected m \<Rightarrow> send_failed False sid m s1))"

text \<open>
  The media of a \<open>send-media\<close> request (lines 179 to 190). \<open>fetch\<close> is what
  \<open>MessageMedia.fromUrl\<close> or \<open>fromFilePath\<close> does when it is reached: \<open>None\<close> when it
  resolves, \<open>Some m\<close> when it rejects with message \<open>m\<close>.
\<close>

definition build_media :: "media_request \<Rightarrow> string option \<Rightarrow> string + content" where
  "build_media d fetch =
     (if truthy (base64Data d)
      then Inr (InlineMedia
                  (if truthy (mimeType d) then the (mimeType d)
                   else ''application/octet-stream'')
                  (the (base64Data d)) (filename d) (filesize d))
      else if truthy (filePath d)
      then (if startsWith (the (filePath d)) ''http''
            then (case fetch of
                    None \<Rightarrow> Inr (UrlMedia (the (filePath d)))
                  | Some m \<Rightarrow> Inl m)
            else (case fetch of
                    None \<Rightarrow> Inr (FileMedia (the (filePath d)))
                  | Some m \<Rightarrow> Inl m))
      else Inr (Text (message d)))"

definition send_media ::
  "media_request \<Rightarrow> string option \<Rightarrow> send_result \<Rightarrow> state \<Rightarrow> state" where
  "send_media d fetch answer s =
     (case js_get (clients s) (sessionId d) of
        Undefined \<Rightarrow>
          (let s1 = initializeClient (sessionId d) s
           in s1\<lparr>listeners := listeners s1 @ [DeferredMedia d]\<rparr>)
      | Inherited \<Rightarrow>
          (case build_media d fetch of
             Inl m \<Rightarrow> send_failed True (sessionId d) m s
           | Inr md \<Rightarrow>
               send_failed True (sessionId d) ''client.sendMessage is not a function'' s)
      | Own c \<Rightarrow>
          (case build_media d fetch of
             Inl m \<Rightarrow> send_failed True (sessionId d) m s
           | Inr md \<Rightarrow>
               (let s1 = s\<lparr>engine := engine s @
                               [SendMessage c (number d @ ''@c.us'') md (Some (message d))]\<rparr>
                in case answer of
                     Delivered \<Rightarrow>
                       emit Requester ''message-sent'' (Str ''Message sent successfully!'') s1
                   | Rejected m \<Rightarrow> send_failed True (sessionId d) m s1)))"

definition reconnect_session :: "string \<Rightarrow> state \<Rightarrow> state" where
  "reconnect_session sid s = initializeClient sid s"

text \<open>
  The socket's \<open>disconnect\<close> listener receives the reason, a string; its \<open>message\<close> property
  is undefined.
\<close>

definition socket_disconnect :: "state \<Rightarrow> state" where
  "socket_disconnect s =
     emit Requester ''error''
       (Obj [(''status'', Str ''message''),
             (''datamsg'', Str ''A client disconnected: undefined'')]) s"

text \<open>
  \<open>destroy-session\<close> reads \<open>clients[data.sessionId]\<close> at once and leaves the rest to a
  timer of 5000 ms. All timers have the same delay, so they expire in the order they were
  set.
\<close>

definition destroy_session :: "string \<Rightarrow> state \<Rightarrow> state" where
  "destroy_session sid s = s\<lparr>timers := timers s @ [(js_get (clients s) sid, sid)]\<rparr>"

text \<open>An exception that leaves a timer callback ends the process.\<close>

definition uncaught :: "string \<Rightarrow> state \<Rightarrow> state" where
  "uncaught m s = s\<lparr>crashed := Some m\<rparr>"

text \<open>
  The timer callback (lines 224 to 231), outside every \<open>try\<close>. \<open>browser_up\<close> is the
  engine's: whether \<open>client.pupBrowser\<close> is set when the callback runs (it is \<open>null\<close>
  until the engine has launched its browser). An inherited property has no \<open>pupBrowser\<close>
  at all. In both cases \<open>client.pupBrowser.close()\<close> throws, before anything is destroyed
  or deleted.
\<close>

definition timer_fires :: "bool \<Rightarrow> state \<Rightarrow> state" where
  "timer_fires browser_up s =
     (case timers s of
        [] \<Rightarrow> s
      | (captured, sid) # rest \<Rightarrow>
          (case captured of
             Undefined \<Rightarrow> s\<lparr>timers := rest\<rparr>
           | Inherited \<Rightarrow>
               uncaught ''Cannot read properties of undefined (reading 'close')''
                 (s\<lparr>timers := rest\<rparr>)
           | Own c \<Rightarrow>
               if browser_up
               then s\<lparr>timers := rest,
                      engine := engine s @ [CloseBrowser c, Destroy c],
                      clients := AList.delete sid (clients s),
                      sessions := AList.delete sid (sessions s)\<rparr>
               else uncaught ''Cannot read properties of null (reading 'close')''
                      (s\<lparr>timers := rest\<rparr>)))"

text \<open>
  The \<open>for (const sessionId in sessions)\<close> loop of \<open>remove_unwanted_session\<close>: the keys are
  those present when the loop starts, and the body deletes only the key it is visiting.
\<close>

fun prune_loop :: "string list \<Rightarrow> session table \<Rightarrow> string list \<Rightarrow> session table \<times> string list" where
  "prune_loop [] tbl sessionsToRemove = (tbl, sessionsToRemove)"
| "prune_loop (k # ks) tbl sessionsToRemove =
     (if k = [] \<or> \<not> validSessionPattern k
      then prune_loop ks (AList.delete k tbl) (sessionsToRemove @ [k])
      else prune_loop ks tbl sessionsToRemove)"

definition remove_unwanted_session :: "state \<Rightarrow> state" where
  "remove_unwanted_session s =
     (case prune_loop (map fst (own_enumeration (sessions s))) (sessions s) [] of
        (tbl, sessionsToRemove) \<Rightarrow>
          (let s1 = s\<lparr>sessions := tbl\<rparr>
           in case writeFileSync s1 of
                Inr s2 \<Rightarrow>
                  emit Requester ''unwanted_sessions_removed''
                    (Obj [(''removedSessions'', Arr sessionsToRemove),
                          (''status'', Str ''success''),
                          (''message'',
                           Str (string_of_nat (length sessionsToRemove)
                                @ '' unwanted sessions removed.''))]) s2
              | Inl m \<Rightarrow>
                  emit Requester ''error''
                    (Obj [(''status'', Str ''error''),
                          (''datamsg'',
                           Str (''Error handling remove_unwanted_session event: '' @ m))]) s1))"

text \<open>
  The callbacks of \<open>socket.once('reconnected', ...)\<close> run when the peer sends an event named
  \<open>reconnected\<close> to the server; the server's own \<open>io.emit('reconnected', ...)\<close> travels
  the other way and runs none of them. Each callback calls \<open>sendMediaToClient\<close>, which
  the program does not define: the call throws a \<open>ReferenceError\<close> inside an async function,
  a rejection that nothing handles. It is recorded in \<open>unhandled\<close>; what Node does with
  it after that depends on the version of Node.
\<close>

fun run_deferred :: "deferred \<Rightarrow> state \<Rightarrow> state" where
  "run_deferred d s =
     s\<lparr>unhandled := unhandled s @ [''ReferenceError: sendMediaToClient is not defined'']\<rparr>"

definition peer_reconnected :: "state \<Rightarrow> state" where
  "peer_reconnected s = fold run_deferred (listeners s) (s\<lparr>listeners := []\<rparr>)"

subsection \<open>Runs\<close>

text \<open>
  A lifecycle event comes from a client, and runs the handler that \<open>createClient\<close>
  registered on it with the client's own \<open>sessionId\<close>.
\<close>

datatype event =
    GetQr string
  | SendMessageReq string string string send_result
  | SendMediaReq media_request "string option" send_result
  | ReconnectSession string
  | DestroySession string
  | RemoveUnwantedSession
  | SocketDisconnect
  | PeerReconnected
  | TimerFires bool
  | EngineQr client string
  | EngineAuthenticated client
  | EngineReady client
  | EngineAuthFailure client string
  | EnginePageError client string
  | EngineError client string
  | EngineDisconnected client

fun dispatch :: "event \<Rightarrow> state \<Rightarrow> state" where
  "dispatch (GetQr sid) s = get_qr sid s"
| "dispatch (SendMessageReq sid num msg answer) s = send_message sid num msg answer s"
| "dispatch (SendMediaReq d fetch answer) s = send_media d fetch answer s"
| "dispatch (ReconnectSession sid) s = reconnect_session sid s"
| "dispatch (DestroySession sid) s = destroy_session sid s"
| "dispatch RemoveUnwantedSession s = remove_unwanted_session s"
| "dispatch SocketDisconnect s = socket_disconnect s"
| "dispatch PeerReconnected s = peer_reconnected s"
| "dispatch (TimerFires browser_up) s = timer_fires browser_up s"
| "dispatch (EngineQr c img) s = on_qr (clientId c) img s"
| "dispatch (EngineAuthenticated c) s = on_authenticated (clientId c) s"
| "dispatch (EngineReady c) s = on_ready (clientId c) s"
| "dispatch (EngineAuthFailure c msg) s = on_auth_failure (clientId c) msg s"
| "dispatch (EnginePageError c msg) s = on_page_error msg s"
| "dispatch (EngineError c msg) s = on_error (clientId c) msg s"
| "dispatch (EngineDisconnected c) s = on_disconnected (clientId c) s"

text \<open>The client that raises an event, if the event is a client's.\<close>

fun source :: "event \<Rightarrow> client option" where
  "source (EngineQr c img) = Some c"
| "source (EngineAuthenticated c) = Some c"
| "source (EngineReady c) = Some c"
| "source (EngineAuthFailure c msg) = Some c"
| "source (EnginePageError c msg) = Some c"
| "source (EngineError c msg) = Some c"
| "source (EngineDisconnected c) = Some c"
| "source ev = None"

text \<open>
  A process that has ended handles nothing, and a client that was never built raises
  nothing.
\<close>

definition handle :: "event \<Rightarrow> state \<Rightarrow> state" where
  "handle ev s =
     (if crashed s \<noteq> None then s
      else case source ev of
             None \<Rightarrow> dispatch ev s
           | Some c \<Rightarrow> if New c \<in> set (engine s) then dispatch ev s else s)"

definition run :: "state \<Rightarrow> event list \<Rightarrow> state" where
  "run s evs = fold handle evs s"

subsection \<open>Observations\<close>

text \<open>The clients built so far: the arguments of the \<open>New\<close> calls, oldest first.\<close>

fun constructed_in :: "engine_call list \<Rightarrow> client list" where
  "constructed_in [] = []"
| "constructed_in (New c # es) = c # constructed_in es"
| "constructed_in (e # es) = constructed_in es"

definition constructed :: "state \<Rightarrow> client list" where
  "constructed s = constructed_in (engine s)"

text \<open>The handles that the table \<open>clients\<close> holds for one session.\<close>

definition handles_for :: "string \<Rightarrow> state \<Rightarrow> client list" where
  "handles_for sid s = map snd (filter (\<lambda>p. fst p = sid) (clients s))"

text \<open>A client is live until \<open>destroy\<close> has been called on it.\<close>

definition live :: "state \<Rightarrow> client \<Rightarrow> bool" where
  "live s c = (Destroy c \<notin> set (engine s))"

text \<open>
  What holds of the handle table in every state the program reaches: its keys are distinct;
  a handle is filed under the session it was built for, was built before now and is live;
  a destroyed client was built before now; a timer holds a client of the session it will
  delete; and the identifier of a client names no inherited property and is one that
  \<open>LocalAuth\<close> accepts.
\<close>

definition table_ok :: "state \<Rightarrow> bool" where
  "table_ok s =
     (distinct (map fst (clients s)) \<and>
      (\<forall>p \<in> set (clients s).
         clientId (snd p) = fst p \<and> cid (snd p) < next_cid s \<and> live s (snd p)) \<and>
      (\<forall>c. Destroy c \<in> set (engine s) \<longrightarrow> cid c < next_cid s) \<and>
      (\<forall>t \<in> set (timers s). \<forall>c. fst t = Own c \<longrightarrow> clientId c = snd t \<and> cid c < next_cid s) \<and>
      (\<forall>c. New c \<in> set (engine s) \<longrightarrow>
         clientId c \<notin> set proto_names \<and> localAuth_accepts (clientId c)))"

subsection \<open>Scenarios\<close>

text \<open>
  The first client the program builds for \<open>session_a\<close>, and the one it builds second, for
  the empty identifier.
\<close>

definition client_a :: client where
  "client_a = \<lparr>cid = 0, clientId = ''session_a''\<rparr>"

definition client_empty :: client where
  "client_empty = \<lparr>cid = 1, clientId = []\<rparr>"

text \<open>A fresh process with no file, after one \<open>get-qr\<close> for \<open>session_a\<close>.\<close>

definition serving_a :: state where
  "serving_a = run (boot NoFile None) [GetQr ''session_a'']"



text \<open>A process restarted on a file that says \<open>session_a\<close> is authenticated.\<close>

definition restarted_a :: state where
  "restarted_a = boot (Document [(''session_a'', \<lparr>authenticated = True\<rparr>)]) None"




text \<open>A fresh process after \<open>get-qr\<close> for \<open>foo\<close> and then for \<open>7\<close>.\<close>

definition foo_then_7 :: state where
  "foo_then_7 = run (boot NoFile None) [GetQr ''foo'', GetQr ''7'']"

text \<open>A fresh process after two calls of \<open>initializeClient\<close> for \<open>a b\<close>.\<close>

definition twice_a_b :: state where
  "twice_a_b = initializeClient ''a b'' (initializeClient ''a b'' (boot NoFile None))"

text \<open>A \<open>send-media\<close> request whose recipient has a letter in it.\<close>

definition media_12a :: media_request where
  "media_12a =
     \<lparr>sessionId = ''session_a'', number = ''12a'', message = ''hi'', filePath = None,
      base64Data = None, mimeType = None, filename = None, filesize = None\<rparr>"

text \<open>\<open>destroy-session\<close> for \<open>session_a\<close>, and the timer expiring.\<close>

definition destroyed_a :: state where
  "destroyed_a = run serving_a [DestroySession ''session_a'', TimerFires True]"

text \<open>\<open>destroy-session\<close>, then \<open>reconnect-session\<close> before the timer expires, then the timer.\<close>

definition torn_down_a :: state where
  "torn_down_a =
     run serving_a
       [DestroySession ''session_a'', ReconnectSession ''session_a'', TimerFires True]"

text \<open>A \<open>send-message\<close> for a session without a handle, then the engine's \<open>ready\<close>.\<close>

definition queued_then_ready :: state where
  "queued_then_ready =
     run (boot NoFile None)
       [SendMessageReq ''session_a'' ''123'' ''hi'' Delivered, EngineReady client_a]"

text \<open>The engine reports that the client of \<open>session_a\<close> was disconnected.\<close>

definition disconnected_a :: state where
  "disconnected_a = run serving_a [EngineDisconnected client_a]"

section \<open>Properties\<close>

subsection \<open>The handle table\<close>

lemma constructed_in_append:
  "constructed_in (xs @ ys) = constructed_in xs @ constructed_in ys"
  by (induction xs rule: constructed_in.induct) simp_all


lemma table_ok_boot: "table_ok (boot d f)"
  by (simp add: table_ok_def boot_def)

lemma table_ok_cong:
  assumes "clients s' = clients s" "timers s' = timers s" "next_cid s' = next_cid s"
    and "\<And>c. Destroy c \<in> set (engine s') \<longleftrightarrow> Destroy c \<in> set (engine s)"
    and "\<And>c. New c \<in> set (engine s') \<longleftrightarrow> New c \<in> set (engine s)"
  shows "table_ok s' = table_ok s"
  using assms by (simp add: table_ok_def live_def)

lemma table_ok_emit: "table_ok (emit ch n p s) = table_ok s"
  by (rule table_ok_cong) (simp_all add: emit_def)

lemma set_update_cases:
  "p \<in> set (AList.update k v al) \<Longrightarrow> p = (k, v) \<or> p \<in> set al"
  by (induction al) (auto split: if_splits)

lemma js_get_Own: "js_get tbl k = Own v \<longleftrightarrow> map_of tbl k = Some v"
  by (simp add: js_get_def split: option.splits)

lemma js_get_Undefined:
  "js_get tbl k = Undefined \<longleftrightarrow> map_of tbl k = None \<and> k \<notin> set proto_names"
  by (simp add: js_get_def split: option.splits)

lemma js_get_Inherited:
  "js_get tbl k = Inherited \<longleftrightarrow> map_of tbl k = None \<and> k \<in> set proto_names"
  by (simp add: js_get_def split: option.splits)

text \<open>What \<open>initializeClient\<close> does when it builds a client.\<close>

lemma initializeClient_builds:
  assumes "js_get (clients s) sid = Undefined" and "localAuth_accepts sid"
  defines "c \<equiv> \<lparr>cid = next_cid s, clientId = sid\<rparr>"
  shows "clients (initializeClient sid s) = AList.update sid c (clients s)"
    and "engine (initializeClient sid s) = engine s @ [New c, Initialize c]"
    and "next_cid (initializeClient sid s) = Suc (next_cid s)"
    and "timers (initializeClient sid s) = timers s"
    and "crashed (initializeClient sid s) = crashed s"
    and "sessions (initializeClient sid s) =
           AList.update sid \<lparr>authenticated = False\<rparr> (sessions s)"
  using assms(1,2) unfolding c_def
  by (auto simp: initializeClient_def createClient_def Let_def writeFileSync_def emit_def
      split: option.splits)

text \<open>What it does when it finds a handle.\<close>

lemma initializeClient_again:
  assumes "js_get (clients s) sid = Own c"
  shows "initializeClient sid s =
           emit Broadcast ''reconnect-status''
             (Obj [(''sessionId'', Str sid), (''status'', Str ''Success''),
                   (''message'', Str (''Client '' @ sid @ '' is reconnected!''))])
             (s\<lparr>engine := engine s @ [Initialize c]\<rparr>)"
  using assms by (simp add: initializeClient_def)

text \<open>What it does in every other case: it reports an error.\<close>

lemma initializeClient_refused:
  assumes "js_get (clients s) sid = Inherited \<or>
           js_get (clients s) sid = Undefined \<and> \<not> localAuth_accepts sid"
  shows "\<exists>p. initializeClient sid s = emit Broadcast ''error'' p s"
  using assms by (auto simp: initializeClient_def createClient_def)

lemma table_ok_initializeClient:
  assumes "table_ok s"
  shows "table_ok (initializeClient sid s)"
proof (cases "js_get (clients s) sid")
  case (Own c)
  have "table_ok (s\<lparr>engine := engine s @ [Initialize c]\<rparr>) = table_ok s"
    by (rule table_ok_cong) simp_all
  with assms show ?thesis
    by (simp add: initializeClient_again [OF Own] table_ok_emit)
next
  case Inherited
  then obtain p where "initializeClient sid s = emit Broadcast ''error'' p s"
    using initializeClient_refused by blast
  with assms show ?thesis by (simp add: table_ok_emit)
next
  case Undefined
  show ?thesis
  proof (cases "localAuth_accepts sid")
    case False
    with Undefined obtain p where "initializeClient sid s = emit Broadcast ''error'' p s"
      using initializeClient_refused by blast
    with assms show ?thesis by (simp add: table_ok_emit)
  next
    case True
    define c where "c = \<lparr>cid = next_cid s, clientId = sid\<rparr>"
    define s' where "s' = initializeClient sid s"
    have fresh: "sid \<notin> fst ` set (clients s)" and plain: "sid \<notin> set proto_names"
      using Undefined by (simp_all add: js_get_Undefined map_of_eq_None_iff)
    have f: "clients s' = AList.update sid c (clients s)"
      "engine s' = engine s @ [New c, Initialize c]"
      "next_cid s' = Suc (next_cid s)" "timers s' = timers s"
      unfolding s'_def c_def using initializeClient_builds [OF Undefined True] by simp_all
    have "table_ok s'"
      unfolding table_ok_def live_def f
      using assms fresh plain True
      by (auto simp: table_ok_def live_def distinct_update c_def dest!: set_update_cases)
    then show ?thesis by (simp add: s'_def)
  qed
qed

lemma table_ok_destroy_session:
  assumes "table_ok s"
  shows "table_ok (destroy_session sid s)"
proof -
  have "\<And>c. js_get (clients s) sid = Own c \<Longrightarrow> clientId c = sid \<and> cid c < next_cid s"
    using assms by (auto simp: table_ok_def js_get_Own dest!: map_of_SomeD)
  with assms show ?thesis
    by (auto simp: table_ok_def destroy_session_def live_def)
qed

lemma table_ok_timers: "table_ok s \<Longrightarrow> timers s = t # rest \<Longrightarrow> table_ok (s\<lparr>timers := rest\<rparr>)"
  by (auto simp: table_ok_def live_def)

lemma table_ok_uncaught: "table_ok (uncaught m s) = table_ok s"
  by (rule table_ok_cong) (simp_all add: uncaught_def)

lemma table_ok_timer_fires:
  assumes "table_ok s"
  shows "table_ok (timer_fires up s)"
proof (cases "timers s")
  case Nil
  with assms show ?thesis by (simp add: timer_fires_def)
next
  case (Cons t rest)
  obtain captured sid where t: "t = (captured, sid)" by (cases t)
  have popped: "table_ok (s\<lparr>timers := rest\<rparr>)"
    using assms Cons by (rule table_ok_timers)
  show ?thesis
  proof (cases "\<exists>c. captured = Own c \<and> up")
    case False
    with Cons t popped show ?thesis
      by (cases captured) (auto simp: timer_fires_def table_ok_uncaught)
  next
    case True
    then obtain c where cap: "captured = Own c" and up: up by blast
    have c: "clientId c = sid" "cid c < next_cid s"
      using assms Cons t cap by (auto simp: table_ok_def)
    have eq: "timer_fires up s =
        s\<lparr>timers := rest, engine := engine s @ [CloseBrowser c, Destroy c],
          clients := AList.delete sid (clients s),
          sessions := AList.delete sid (sessions s)\<rparr>"
      using Cons t cap up by (simp add: timer_fires_def)
    have other: "snd p \<noteq> c" if "p \<in> set (AList.delete sid (clients s))" for p
    proof -
      from that have "p \<in> set (clients s)" "fst p \<noteq> sid"
        by (auto simp: AList.delete_eq)
      with assms have "clientId (snd p) \<noteq> sid"
        by (auto simp: table_ok_def)
      with c show ?thesis by auto
    qed
    have sub: "set (AList.delete sid (clients s)) \<subseteq> set (clients s)"
      by (auto simp: AList.delete_eq)
    show ?thesis
      unfolding eq table_ok_def live_def
      using assms Cons t c other sub
      by (auto simp: table_ok_def live_def distinct_delete)
  qed
qed

lemma table_ok_listeners: "table_ok (s\<lparr>listeners := l\<rparr>) = table_ok s"
  by (rule table_ok_cong) simp_all

lemma table_ok_send_failed: "table_ok (send_failed b sid m s) = table_ok s"
  by (simp add: send_failed_def table_ok_emit)

lemma table_ok_engine_send:
  "table_ok (s\<lparr>engine := engine s @ [SendMessage c n m o']\<rparr>) = table_ok s"
  by (rule table_ok_cong) simp_all

lemma table_ok_send_message:
  "table_ok s \<Longrightarrow> table_ok (send_message sid num msg answer s)"
  by (simp add: send_message_def Let_def table_ok_listeners table_ok_initializeClient
      table_ok_emit table_ok_send_failed table_ok_engine_send
      split: lookup.splits send_result.splits)

lemma table_ok_send_media:
  "table_ok s \<Longrightarrow> table_ok (send_media d fetch answer s)"
  by (simp add: send_media_def Let_def table_ok_listeners table_ok_initializeClient
      table_ok_emit table_ok_send_failed table_ok_engine_send
      split: lookup.splits send_result.splits sum.splits)

lemma table_ok_get_qr: "table_ok s \<Longrightarrow> table_ok (get_qr sid s)"
  by (simp add: get_qr_def Let_def table_ok_initializeClient table_ok_emit
      split: lookup.splits)

lemma table_ok_sessions: "table_ok (s\<lparr>sessions := t\<rparr>) = table_ok s"
  by (rule table_ok_cong) simp_all

lemma table_ok_disk: "table_ok (s\<lparr>disk := t\<rparr>) = table_ok s"
  by (rule table_ok_cong) simp_all

lemma table_ok_on_authenticated: "table_ok s \<Longrightarrow> table_ok (on_authenticated sid s)"
  by (simp add: on_authenticated_def Let_def writeFileSync_def table_ok_emit
      table_ok_sessions table_ok_disk split: option.splits)

lemma table_ok_remove_unwanted_session:
  "table_ok s \<Longrightarrow> table_ok (remove_unwanted_session s)"
  by (simp add: remove_unwanted_session_def Let_def writeFileSync_def table_ok_emit
      table_ok_sessions table_ok_disk split: option.splits prod.splits)

lemma fold_run_deferred:
  "fold run_deferred ds s =
     s\<lparr>unhandled := unhandled s @
          map (\<lambda>d. ''ReferenceError: sendMediaToClient is not defined'') ds\<rparr>"
  by (induction ds arbitrary: s) simp_all

lemma table_ok_peer_reconnected: "table_ok (peer_reconnected s) = table_ok s"
  unfolding peer_reconnected_def fold_run_deferred
  by (rule table_ok_cong) simp_all

lemma table_ok_dispatch: "table_ok s \<Longrightarrow> table_ok (dispatch ev s)"
  by (cases ev)
    (simp_all add: table_ok_get_qr table_ok_send_message table_ok_send_media
      reconnect_session_def table_ok_initializeClient table_ok_destroy_session
      table_ok_remove_unwanted_session socket_disconnect_def table_ok_emit
      table_ok_peer_reconnected table_ok_timer_fires on_qr_def table_ok_on_authenticated
      on_ready_def on_auth_failure_def on_page_error_def on_error_def Let_def
      on_disconnected_def)

lemma table_ok_handle: "table_ok s \<Longrightarrow> table_ok (handle ev s)"
  by (simp add: handle_def table_ok_dispatch split: option.splits)

lemma table_ok_fold: "table_ok s \<Longrightarrow> table_ok (fold handle evs s)"
  by (induction evs arbitrary: s) (simp_all add: table_ok_handle)

lemma table_ok_run: "table_ok (run (boot d f) evs)"
  by (simp add: run_def table_ok_fold table_ok_boot)

lemma handles_for_le_one:
  assumes "distinct (map fst t)"
  shows "length (filter (\<lambda>p. fst p = k) t) \<le> 1"
  using assms by (induction t) (auto simp: filter_empty_conv image_iff)

lemma handles_for_map_of:
  assumes "distinct (map fst t)" "map_of t k = Some c"
  shows "map snd (filter (\<lambda>p. fst p = k) t) = [c]"
  using assms
  by (induction t) (auto simp: filter_empty_conv image_iff dest!: map_of_SomeD)

lemma initializeClient_handle:
  assumes "sid \<notin> set proto_names" and "localAuth_accepts sid"
  shows "\<exists>c. js_get (clients (initializeClient sid s)) sid = Own c"
proof (cases "js_get (clients s) sid")
  case (Own c)
  then show ?thesis
    by (simp add: initializeClient_again [OF Own] emit_def)
next
  case Inherited
  with assms show ?thesis by (simp add: js_get_Inherited)
next
  case Undefined
  then show ?thesis
    using initializeClient_builds(1) [OF Undefined assms(2)]
    by (simp add: js_get_Own update_conv')
qed

lemma initializeClient_constructed:
  assumes "sid \<notin> set proto_names" and "localAuth_accepts sid"
  shows "length (constructed (initializeClient sid s)) =
     length (constructed s) + (if map_of (clients s) sid = None then 1 else 0)"
proof (cases "js_get (clients s) sid")
  case (Own c)
  then show ?thesis
    by (simp add: initializeClient_again [OF Own] emit_def constructed_def
        constructed_in_append js_get_Own)
next
  case Inherited
  with assms show ?thesis by (simp add: js_get_Inherited)
next
  case Undefined
  then show ?thesis
    using initializeClient_builds(2) [OF Undefined assms(2)]
    by (simp add: constructed_def constructed_in_append js_get_Undefined)
qed

subsection \<open>Enumeration order\<close>










subsection \<open>The pruning loop\<close>



subsection \<open>Runs and timers\<close>

lemma run_Nil: "run s [] = s"
  by (simp add: run_def)

lemma run_Cons: "run s (ev # evs) = run (handle ev s) evs"
  by (simp add: run_def)

lemma run_append: "run s (evs @ evs') = run (run s evs) evs'"
  by (simp add: run_def)

lemma handle_crashed: "crashed s \<noteq> None \<Longrightarrow> handle ev s = s"
  by (simp add: handle_def)

lemma run_crashed: "crashed s \<noteq> None \<Longrightarrow> run s evs = s"
  by (induction evs) (simp_all add: run_Nil run_Cons handle_crashed)

lemma handle_TimerFires:
  "crashed s = None \<Longrightarrow> handle (TimerFires up) s = timer_fires up s"
  by (simp add: handle_def)

text \<open>A timer callback that does not throw removes its timer and builds nothing.\<close>

lemma timer_fires_pops:
  assumes "timers s = t # rest" and "crashed (timer_fires up s) = None"
  shows "timers (timer_fires up s) = rest"
    and "constructed (timer_fires up s) = constructed s"
  using assms
  by (auto simp: timer_fires_def uncaught_def constructed_def constructed_in_append
      split: lookup.splits if_splits prod.splits)

text \<open>As many timers expiring as were pending, none throwing.\<close>

lemma timers_expire:
  assumes "timers s = ts @ rest" and "length ups = length ts"
    and "crashed (run s (map TimerFires ups)) = None"
  shows "timers (run s (map TimerFires ups)) = rest \<and>
         constructed (run s (map TimerFires ups)) = constructed s"
  using assms
proof (induction ts arbitrary: s ups)
  case Nil
  then show ?case by (simp add: run_Nil)
next
  case (Cons t ts)
  then obtain up ups' where ups: "ups = up # ups'" and len: "length ups' = length ts"
    by (cases ups) auto
  have alive: "crashed s = None"
  proof (rule ccontr)
    assume "crashed s \<noteq> None"
    then show False
      using Cons.prems(3) by (simp add: run_crashed)
  qed
  define s' where "s' = timer_fires up s"
  have step: "run s (map TimerFires ups) = run s' (map TimerFires ups')"
    by (simp add: ups run_Cons handle_TimerFires [OF alive] s'_def)
  have alive': "crashed s' = None"
  proof (rule ccontr)
    assume "crashed s' \<noteq> None"
    then show False
      using Cons.prems(3) by (simp add: step run_crashed)
  qed
  have t: "timers s = t # (ts @ rest)"
    using Cons.prems(1) by simp
  have popped: "timers s' = ts @ rest" "constructed s' = constructed s"
    unfolding s'_def using timer_fires_pops [OF t] alive' by (simp_all add: s'_def)
  from Cons.IH [OF popped(1) len] Cons.prems(3) popped(2) show ?case
    by (simp add: step)
qed

subsection \<open>The send handlers\<close>

lemma send_failed_session_closed:
  "includes_str m ''Session closed'' \<Longrightarrow>
   emitted (send_failed b sid m s) = emitted s @
     [(Requester, ''error'',
       Obj [(''status'', Str ''reconnect''), (''sessionId'', Str sid),
            (''datamsg'',
             Str ''The session is closed. Please Wait While Reauthenticating.'')])]"
  by (simp add: send_failed_def emit_def)

lemma send_message_invalid_number:
  assumes "js_get (clients s) sid = Own c" "\<not> digits_only num"
  shows "engine (send_message sid num msg answer s) = engine s"
    and "emitted (send_message sid num msg answer s) = emitted s @
           [(Requester, ''error'',
             Obj [(''status'', Str ''error''),
                  (''datamsg'', Str ''Invalid phone number format!'')])]"
  using assms by (simp_all add: send_message_def emit_def)

lemma on_ready_engine: "engine (on_ready sid s) = engine s"
  by (simp add: on_ready_def emit_def)

text \<open>
  The loop of \<open>remove_unwanted_session\<close> meets the array index \<open>7\<close> before \<open>foo\<close>,
  which was created first.
\<close>

lemma prune_visits_indices_first:
  "map fst (sessions foo_then_7) = [''foo'', ''7''] \<and>
   prune_loop (map fst (own_enumeration (sessions foo_then_7))) (sessions foo_then_7) []
     = ([], [''7'', ''foo''])"
  by (intro conjI; code_simp)

subsection \<open>Claims\<close>

text \<open>
  Claim C1, as the specification states it, at a concrete input: the identifier \<open>a b\<close>
  has a space in it, \<open>LocalAuth\<close> refuses it, and two calls of \<open>initializeClient\<close> for it
  leave the table without a handle and the engine without a client.
\<close>

theorem ensureSession_refused_identifier:
  "\<not> localAuth_accepts ''a b'' \<and>
   handles_for ''a b'' twice_a_b = [] \<and>
   clients twice_a_b = [] \<and>
   constructed twice_a_b = []"
  by (intro conjI; code_simp)

text \<open>
  Claim C1, amended. Let the identifier be one that \<open>LocalAuth\<close> accepts and that names no
  property inherited from \<open>Object.prototype\<close>. In any state the program reaches from
  start-up, two calls of \<open>initializeClient\<close> for it, one right after the other, leave the
  table with one handle for that session, the same after the first call and after the
  second, and that handle is live; the second call builds no client, and both together
  build one client if the session had no handle and none if it had. In every reachable
  state, and for every identifier, the table holds at most one handle for each session,
  and no handle in it has been destroyed.
\<close>

theorem ensureSession_twice_one_handle:
  assumes "sid \<notin> set proto_names" and "localAuth_accepts sid"
  shows "let s = run (boot d f) evs;
             s1 = initializeClient sid s;
             s2 = initializeClient sid s1
         in (\<exists>c. handles_for sid s1 = [c] \<and> handles_for sid s2 = [c] \<and> live s2 c) \<and>
            constructed s2 = constructed s1 \<and>
            length (constructed s2) =
              length (constructed s) + (if map_of (clients s) sid = None then 1 else 0) \<and>
            (\<forall>k. length (handles_for k s) \<le> 1 \<and> list_all (live s) (handles_for k s))"
proof -
  define s where "s = run (boot d f) evs"
  define s1 where "s1 = initializeClient sid s"
  define s2 where "s2 = initializeClient sid s1"
  have ok: "table_ok s"
    unfolding s_def by (rule table_ok_run)
  then have ok1: "table_ok s1"
    unfolding s1_def by (rule table_ok_initializeClient)
  then have ok2: "table_ok s2"
    unfolding s2_def by (rule table_ok_initializeClient)
  obtain c where c: "js_get (clients s1) sid = Own c"
    unfolding s1_def using initializeClient_handle [OF assms] by blast
  have s2: "s2 = emit Broadcast ''reconnect-status''
      (Obj [(''sessionId'', Str sid), (''status'', Str ''Success''),
            (''message'', Str (''Client '' @ sid @ '' is reconnected!''))])
      (s1\<lparr>engine := engine s1 @ [Initialize c]\<rparr>)"
    unfolding s2_def by (rule initializeClient_again [OF c])
  have same: "clients s2 = clients s1" and built: "constructed s2 = constructed s1"
    by (simp_all add: s2 emit_def constructed_def constructed_in_append)
  have m: "map_of (clients s1) sid = Some c"
    using c by (simp add: js_get_Own)
  have h1: "handles_for sid s1 = [c]"
    unfolding handles_for_def using ok1 m
    by (intro handles_for_map_of) (simp_all add: table_ok_def)
  have h2: "handles_for sid s2 = [c]"
    using h1 same by (simp add: handles_for_def)
  have "(sid, c) \<in> set (clients s2)"
    using m same by (auto dest: map_of_SomeD)
  then have l2: "live s2 c"
    using ok2 by (auto simp: table_ok_def)
  have count: "length (constructed s2) =
      length (constructed s) + (if map_of (clients s) sid = None then 1 else 0)"
    unfolding built s1_def by (rule initializeClient_constructed [OF assms])
  have all: "length (handles_for k s) \<le> 1 \<and> list_all (live s) (handles_for k s)" for k
    using ok handles_for_le_one [of "clients s" k]
    by (auto simp: table_ok_def handles_for_def list_all_iff)
  from h1 h2 l2 built count all show ?thesis
    unfolding Let_def s_def [symmetric] s1_def [symmetric] s2_def [symmetric]
    by blast
qed

text \<open>
  Witness for the amended claim C1: a process started without a file that has received a
  \<open>destroy-session\<close> and a \<open>get-qr\<close> for other sessions, and then two calls for
  \<open>session_a\<close>.
\<close>

theorem ensureSession_twice_one_handle_witness:
  "''session_a'' \<notin> set proto_names \<and> localAuth_accepts ''session_a'' \<and>
   (let s = run (boot NoFile None) [DestroySession ''session_a'', GetQr ''session_b''];
        s1 = initializeClient ''session_a'' s;
        s2 = initializeClient ''session_a'' s1
    in (\<exists>c. handles_for ''session_a'' s1 = [c] \<and> handles_for ''session_a'' s2 = [c] \<and>
            live s2 c) \<and>
       constructed s2 = constructed s1 \<and>
       length (constructed s2) =
         length (constructed s) + (if map_of (clients s) ''session_a'' = None then 1 else 0) \<and>
       (\<forall>k. length (handles_for k s) \<le> 1 \<and> list_all (live s) (handles_for k s)))"
proof -
  have h1: "''session_a'' \<notin> set proto_names"
    by code_simp
  have h2: "localAuth_accepts ''session_a''"
    by code_simp
  from ensureSession_twice_one_handle [OF h1 h2] h1 h2 show ?thesis
    by blast
qed




text \<open>
  Claim C6, as the specification states it, at a concrete input: \<open>destroy-session\<close> for
  \<open>session_a\<close>, then \<open>reconnect-session\<close> for it before the timer expires, then the
  timer. Nothing is left to run, the table has no handle for \<open>session_a\<close>, and the only
  client ever built is the one that was destroyed.
\<close>

theorem destroy_then_ensure_no_fresh_handle:
  "handles_for ''session_a'' torn_down_a = [] \<and>
   constructed torn_down_a = [client_a] \<and>
   \<not> live torn_down_a client_a \<and>
   timers torn_down_a = [] \<and>
   listeners torn_down_a = []"
  by (intro conjI; code_simp)

text \<open>
  Claim C6, amended. \<open>destroy-session\<close> for a session with a handle, followed by
  \<open>initializeClient\<close> for it before the timer expires, builds no client: the call
  re-initializes the handle that is being torn down and leaves the table as it is. Once
  the timers pending up to this one have all expired, none of them throwing and nothing
  else happening in between, that handle has been destroyed, the table has no handle and
  no record for the session, no timer is pending, and still no client has been built.
\<close>

theorem destroy_then_ensure_tears_down:
  assumes "js_get (clients s) sid = Own c"
    and "length ups = Suc (length (timers s))"
    and "crashed (run (initializeClient sid (destroy_session sid s)) (map TimerFires ups)) = None"
  shows "let s2 = initializeClient sid (destroy_session sid s);
             s3 = run s2 (map TimerFires ups)
         in clients s2 = clients s \<and>
            constructed s2 = constructed s \<and>
            engine s2 = engine s @ [Initialize c] \<and>
            map_of (clients s3) sid = None \<and>
            map_of (sessions s3) sid = None \<and>
            constructed s3 = constructed s \<and>
            \<not> live s3 c \<and>
            timers s3 = []"
proof -
  define s1 where "s1 = destroy_session sid s"
  define s2 where "s2 = initializeClient sid s1"
  define s3 where "s3 = run s2 (map TimerFires ups)"
  have alive3: "crashed s3 = None"
    using assms(3) by (simp add: s3_def s2_def s1_def)
  have c1: "js_get (clients s1) sid = Own c"
    using assms(1) by (simp add: s1_def destroy_session_def)
  have s2: "s2 = emit Broadcast ''reconnect-status''
      (Obj [(''sessionId'', Str sid), (''status'', Str ''Success''),
            (''message'', Str (''Client '' @ sid @ '' is reconnected!''))])
      (s1\<lparr>engine := engine s1 @ [Initialize c]\<rparr>)"
    unfolding s2_def by (rule initializeClient_again [OF c1])
  have f2: "clients s2 = clients s" "constructed s2 = constructed s"
    "engine s2 = engine s @ [Initialize c]" "timers s2 = timers s @ [(Own c, sid)]"
    using assms(1)
    by (simp_all add: s2 s1_def destroy_session_def emit_def constructed_def
        constructed_in_append)
  obtain us u where ups: "ups = us @ [u]" and len: "length us = length (timers s)"
    using assms(2) by (cases ups rule: rev_cases) auto
  define t where "t = run s2 (map TimerFires us)"
  have s3: "s3 = handle (TimerFires u) t"
    by (simp add: s3_def t_def ups run_append run_Cons run_Nil)
  have alive: "crashed t = None"
  proof (rule ccontr)
    assume "crashed t \<noteq> None"
    then show False
      using alive3 by (simp add: s3 handle_crashed)
  qed
  have pending: "timers t = [(Own c, sid)]" and built: "constructed t = constructed s2"
    using timers_expire [OF f2(4) len] alive by (simp_all add: t_def)
  have fired: "s3 = timer_fires u t"
    by (simp add: s3 handle_TimerFires [OF alive])
  have u: u
  proof (rule ccontr)
    assume "\<not> u"
    then have "crashed s3 \<noteq> None"
      by (simp add: fired timer_fires_def pending uncaught_def)
    with alive3 show False by simp
  qed
  have f3: "clients s3 = AList.delete sid (clients t)"
    "sessions s3 = AList.delete sid (sessions t)"
    "engine s3 = engine t @ [CloseBrowser c, Destroy c]" "timers s3 = []"
    by (simp_all add: fired timer_fires_def pending u)
  have "constructed s3 = constructed s"
    using built f2(2) by (simp add: constructed_def f3 constructed_in_append)
  with f2 f3 show ?thesis
    unfolding Let_def s1_def [symmetric] s2_def [symmetric] s3_def [symmetric]
    by (simp add: delete_conv' live_def)
qed

text \<open>
  Witness for the amended claim C6: the session that the process is serving, no other
  timer pending, and the browser up when the timer expires.
\<close>

theorem destroy_then_ensure_tears_down_witness:
  "js_get (clients serving_a) ''session_a'' = Own client_a \<and>
   length [True] = Suc (length (timers serving_a)) \<and>
   crashed (run (initializeClient ''session_a'' (destroy_session ''session_a'' serving_a))
              (map TimerFires [True])) = None \<and>
   (let s2 = initializeClient ''session_a'' (destroy_session ''session_a'' serving_a);
        s3 = run s2 (map TimerFires [True])
    in clients s2 = clients serving_a \<and>
       constructed s2 = constructed serving_a \<and>
       engine s2 = engine serving_a @ [Initialize client_a] \<and>
       map_of (clients s3) ''session_a'' = None \<and>
       map_of (sessions s3) ''session_a'' = None \<and>
       constructed s3 = constructed serving_a \<and>
       \<not> live s3 client_a \<and>
       timers s3 = [])"
proof -
  have h1: "js_get (clients serving_a) ''session_a'' = Own client_a"
    by code_simp
  have h2: "length [True] = Suc (length (timers serving_a))"
    by code_simp
  have h3: "crashed (run (initializeClient ''session_a''
      (destroy_session ''session_a'' serving_a)) (map TimerFires [True])) = None"
    by code_simp
  from destroy_then_ensure_tears_down [OF h1 h2 h3] h1 h2 h3 show ?thesis
    by blast
qed

text \<open>
  Claim C7, as the specification states it, at a concrete input: a process restarted on a
  file that records \<open>session_a\<close> as authenticated has no handle for it, and the first
  \<open>initializeClient\<close> for \<open>session_a\<close> replaces the record by one that is not
  authenticated, in the table and in the file.
\<close>

theorem initializeClient_resets_record:
  "map_of (sessions restarted_a) ''session_a'' = Some \<lparr>authenticated = True\<rparr> \<and>
   map_of (clients restarted_a) ''session_a'' = None \<and>
   map_of (sessions (initializeClient ''session_a'' restarted_a)) ''session_a''
     = Some \<lparr>authenticated = False\<rparr> \<and>
   disk (initializeClient ''session_a'' restarted_a)
     = Document [(''session_a'', \<lparr>authenticated = False\<rparr>)]"
  by (intro conjI; code_simp)

text \<open>
  Claim C7, amended. When \<open>initializeClient\<close> builds a handle (the identifier has no
  entry in the table, names no inherited property and is one that \<open>LocalAuth\<close> accepts),
  it stores a record with \<open>authenticated = false\<close> for that session whether or not one
  exists, and leaves the records of the other sessions as they are; in every other case
  (the table has a handle, or no client can be built) the session table is unchanged.
\<close>

theorem initializeClient_sessions:
  "sessions (initializeClient sid s) =
     (if js_get (clients s) sid = Undefined \<and> localAuth_accepts sid
      then AList.update sid \<lparr>authenticated = False\<rparr> (sessions s)
      else sessions s) \<and>
   map_of (sessions (initializeClient sid s)) =
     (if js_get (clients s) sid = Undefined \<and> localAuth_accepts sid
      then (map_of (sessions s))(sid \<mapsto> \<lparr>authenticated = False\<rparr>)
      else map_of (sessions s))"
proof (cases "js_get (clients s) sid")
  case (Own c)
  then show ?thesis
    by (simp add: initializeClient_again [OF Own] emit_def)
next
  case Inherited
  then obtain p where "initializeClient sid s = emit Broadcast ''error'' p s"
    using initializeClient_refused by blast
  with Inherited show ?thesis by (simp add: emit_def)
next
  case Undefined
  show ?thesis
  proof (cases "localAuth_accepts sid")
    case True
    with Undefined initializeClient_builds(6) [OF Undefined True] show ?thesis
      by (simp add: update_conv')
  next
    case False
    with Undefined obtain p where "initializeClient sid s = emit Broadcast ''error'' p s"
      using initializeClient_refused by blast
    with False show ?thesis by (simp add: emit_def)
  qed
qed

text \<open>
  Witness for the amended claim C7: the restarted process builds a handle for
  \<open>session_a\<close> and resets its record.
\<close>

theorem initializeClient_sessions_witness:
  "js_get (clients restarted_a) ''session_a'' = Undefined \<and>
   localAuth_accepts ''session_a'' \<and>
   sessions (initializeClient ''session_a'' restarted_a) =
     AList.update ''session_a'' \<lparr>authenticated = False\<rparr> (sessions restarted_a) \<and>
   map_of (sessions (initializeClient ''session_a'' restarted_a)) =
     (map_of (sessions restarted_a))(''session_a'' \<mapsto> \<lparr>authenticated = False\<rparr>)"
proof -
  have h1: "js_get (clients restarted_a) ''session_a'' = Undefined"
    by code_simp
  have h2: "localAuth_accepts ''session_a''"
    by code_simp
  from initializeClient_sessions [of "''session_a''" restarted_a] h1 h2 show ?thesis
    by (simp add: update_conv')
qed




text \<open>
  Claim C3, at the input where the program departs from it: a \<open>send-media\<close> request for
  the recipient \<open>12a\<close>, to a session with a handle. The handler has no check of the
  number: it calls \<open>sendMessage\<close> for \<open>12a@c.us\<close> and reports success.
\<close>

theorem send_media_skips_number_check:
  "\<not> digits_only (number media_12a) \<and>
   engine (send_media media_12a None Delivered serving_a) =
     engine serving_a @ [SendMessage client_a ''12a@c.us'' (Text ''hi'') (Some ''hi'')] \<and>
   emitted (send_media media_12a None Delivered serving_a) =
     emitted serving_a @ [(Requester, ''message-sent'', Str ''Message sent successfully!'')]"
  by (intro conjI; code_simp)

text \<open>
  Claim C4, at the input where the program departs from it: a \<open>send-message\<close> for a
  session without a handle, then the engine's \<open>ready\<close> for that session. The message is
  not sent: the callback is still registered, and when the peer's own \<open>reconnected\<close> event
  runs it, it fails on the undefined \<open>sendMediaToClient\<close> without a call to the engine.
\<close>

theorem deferred_send_never_sent:
  "engine queued_then_ready = [New client_a, Initialize client_a] \<and>
   listeners queued_then_ready = [DeferredMessage ''session_a'' ''123'' ''hi''] \<and>
   engine (peer_reconnected queued_then_ready) = [New client_a, Initialize client_a] \<and>
   unhandled (peer_reconnected queued_then_ready) =
     [''ReferenceError: sendMediaToClient is not defined'']"
  by (intro conjI; code_simp)

text \<open>
  Claim C5, at the input where the program departs from it: \<open>destroy-session\<close> for the
  session the process is serving, and the timer. Both tables lose the session; the file is
  not written and still holds the record, which a restart loads again.
\<close>

theorem destroy_session_leaves_file:
  "clients destroyed_a = [] \<and>
   sessions destroyed_a = [] \<and>
   disk destroyed_a = Document [(''session_a'', \<lparr>authenticated = False\<rparr>)] \<and>
   sessions (boot (disk destroyed_a) None) = [(''session_a'', \<lparr>authenticated = False\<rparr>)]"
  by (intro conjI; code_simp)

text \<open>
  Claim C8, at the input where the program departs from it: the engine reports that the
  client of \<open>session_a\<close> was disconnected. The handler calls \<open>initializeClient('')\<close>: a
  client is built and initialized for the empty identifier, and a record is stored for it.
\<close>

theorem disconnect_initializes_empty_identifier:
  "map_of (clients serving_a) [] = None \<and>
   map_of (clients disconnected_a) [] = Some client_empty \<and>
   map_of (sessions disconnected_a) [] = Some \<lparr>authenticated = False\<rparr> \<and>
   engine disconnected_a = engine serving_a @ [New client_empty, Initialize client_empty]"
  by (intro conjI; code_simp)

text \<open>
  Claim C9, at the input where the program departs from it: the engine rejects a
  \<open>send-message\<close> with a message that contains neither \<open>Session closed\<close> nor
  \<open>page has been closed\<close>. The send was attempted and nothing is emitted.
\<close>

theorem send_failure_dropped:
  "engine (send_message ''session_a'' ''123'' ''hi''
             (Rejected ''Evaluation failed: Error: wid error: invalid wid'') serving_a) =
     engine serving_a @ [SendMessage client_a ''123@c.us'' (Text ''hi'') None] \<and>
   emitted (send_message ''session_a'' ''123'' ''hi''
              (Rejected ''Evaluation failed: Error: wid error: invalid wid'') serving_a) =
     emitted serving_a"
  by (intro conjI; code_simp)


end
